theory Spec2Isabelle
  imports Main
begin

section \<open>The \<^verbatim>\<open>bug_reports\<close> table\<close>

text \<open>
  The module \<^verbatim>\<open>bug_reports/bug_report.py\<close> keeps every bug in one SQLite table,
  created by \<^verbatim>\<open>_init_bug_db\<close>. A row is modelled as a record with the columns of
  the \<^verbatim>\<open>CREATE TABLE\<close> statement; a nullable column is an \<open>option\<close>, \<open>None\<close>
  being SQL \<^verbatim>\<open>NULL\<close>. The text columns are strings, as in the code: the status of a
  bug is whatever text was last written to it. A text is given by the bytes of its
  UTF-8 form, so that a character outside ASCII is a sequence of two to four bytes.
  The value of \<^verbatim>\<open>CURRENT_TIMESTAMP\<close> is read from a clock passed to every handler,
  as a number of seconds; its fixed-width text form compares as the numbers do.
\<close>

type_synonym timestamp = nat

record bug_report =
  bug_id :: string
  user_id :: string
  username :: string
  session_id :: "string option"
  title :: string
  description :: string
  reproduction_steps :: "string option"
  severity :: "string option"
  category :: "string option"
  system_info :: "string option"
  log_context :: "string option"
  screenshot_path :: "string option"
  screenshot_name :: "string option"
  status :: "string option"
  assigned_to :: "string option"
  assigned_at :: "timestamp option"
  progress_notes :: "string option"
  reported_at :: "timestamp option"
  updated_at :: "timestamp option"

text \<open>
  The table is the list of its rows in insertion (rowid) order, the order in which a
  full scan visits them. All handlers share one connection, so a statement sees every
  earlier write, committed or not.
\<close>

type_synonym db = "bug_report list"

definition bug_ids_of :: "db \<Rightarrow> string set" where
  "bug_ids_of d = bug_id ` set d"

section \<open>Python and SQL primitives\<close>

text \<open>Exceptions that leave a handler.\<close>

datatype py_error = KeyError string | IntegrityError string | OverflowError string

text \<open>Truth value of an optional string: \<^verbatim>\<open>None\<close> and \<^verbatim>\<open>""\<close> are false.\<close>

definition truthy :: "string option \<Rightarrow> bool" where
  "truthy s = (case s of None \<Rightarrow> False | Some v \<Rightarrow> v \<noteq> [])"

text \<open>\<^verbatim>\<open>a or b\<close> on optional strings, and with a string default at the end.\<close>

definition py_or :: "string option \<Rightarrow> string option \<Rightarrow> string option" where
  "py_or a b = (if truthy a then a else b)"

definition py_or_str :: "string option \<Rightarrow> string \<Rightarrow> string" where
  "py_or_str a d = (case a of None \<Rightarrow> d | Some v \<Rightarrow> if v = [] then d else v)"

text \<open>How an f-string prints an optional string.\<close>

definition py_str :: "string option \<Rightarrow> string" where
  "py_str s = (case s of None \<Rightarrow> ''None'' | Some v \<Rightarrow> v)"

text \<open>
  \<^verbatim>\<open>str.lower\<close>, used only to compare with \<^verbatim>\<open>"none"\<close>. The ASCII capitals are
  mapped to their small letters. No character outside ASCII has a lower case containing
  one of the letters n, o, e, so leaving those characters as they are does not change
  the outcome of the comparison.
\<close>

definition lower_char :: "char \<Rightarrow> char" where
  "lower_char c =
     (let n = (of_char c :: nat) in if 65 \<le> n \<and> n \<le> 90 then char_of (n + 32) else c)"

definition lower :: "string \<Rightarrow> string" where
  "lower s = map lower_char s"

text \<open>
  \<^verbatim>\<open>str.strip\<close>. The white space of Python is the characters 9 to 13 and 28 to 32 of
  ASCII and the characters U+0085, U+00A0, U+1680, U+2000 to U+200A, U+2028, U+2029,
  U+202F, U+205F and U+3000, listed here in their UTF-8 form. A text starts (or ends)
  with a white space character exactly if its bytes start (or end) with the bytes of
  one.
\<close>

definition white_space :: "string list" where
  "white_space =
     [[CHR 0x09], [CHR 0x0A], [CHR 0x0B], [CHR 0x0C], [CHR 0x0D],
      [CHR 0x1C], [CHR 0x1D], [CHR 0x1E], [CHR 0x1F], [CHR 0x20],
      [CHR 0xC2, CHR 0x85], [CHR 0xC2, CHR 0xA0], [CHR 0xE1, CHR 0x9A, CHR 0x80],
      [CHR 0xE2, CHR 0x80, CHR 0x80], [CHR 0xE2, CHR 0x80, CHR 0x81],
      [CHR 0xE2, CHR 0x80, CHR 0x82], [CHR 0xE2, CHR 0x80, CHR 0x83],
      [CHR 0xE2, CHR 0x80, CHR 0x84], [CHR 0xE2, CHR 0x80, CHR 0x85],
      [CHR 0xE2, CHR 0x80, CHR 0x86], [CHR 0xE2, CHR 0x80, CHR 0x87],
      [CHR 0xE2, CHR 0x80, CHR 0x88], [CHR 0xE2, CHR 0x80, CHR 0x89],
      [CHR 0xE2, CHR 0x80, CHR 0x8A], [CHR 0xE2, CHR 0x80, CHR 0xA8],
      [CHR 0xE2, CHR 0x80, CHR 0xA9], [CHR 0xE2, CHR 0x80, CHR 0xAF],
      [CHR 0xE2, CHR 0x81, CHR 0x9F], [CHR 0xE3, CHR 0x80, CHR 0x80]]"

definition starts_with :: "string \<Rightarrow> string \<Rightarrow> bool" where
  "starts_with s w = (w \<noteq> [] \<and> take (length w) s = w)"

function strip_front :: "string list \<Rightarrow> string \<Rightarrow> string" where
  "strip_front ws s =
     (case find (starts_with s) ws of
        None \<Rightarrow> s
      | Some w \<Rightarrow> strip_front ws (drop (length w) s))"
  by pat_completeness auto
termination
proof (relation "measure (\<lambda>(ws, s). length s)")
  show "wf (measure (\<lambda>(ws, s). length s))"
    by simp
next
  fix ws :: "string list" and s w :: string
  assume "find (starts_with s) ws = Some w"
  then have "starts_with s w"
    by (auto simp: find_Some_iff)
  then have "w \<noteq> []" and "take (length w) s = w"
    by (simp_all add: starts_with_def)
  then have "s \<noteq> []"
    by auto
  with \<open>w \<noteq> []\<close> show "((ws, drop (length w) s), (ws, s)) \<in> measure (\<lambda>(ws, s). length s)"
    by simp
qed

declare strip_front.simps [simp del]

definition strip :: "string \<Rightarrow> string" where
  "strip s = rev (strip_front (map rev white_space) (rev (strip_front white_space s)))"

text \<open>
  Counting and cutting by characters, as \<^verbatim>\<open>len(s)\<close> and \<^verbatim>\<open>s[:n]\<close> do: a character
  starts at every byte that is not a continuation byte (128 to 191).
\<close>

definition is_continuation :: "char \<Rightarrow> bool" where
  "is_continuation c = (let n = (of_char c :: nat) in 128 \<le> n \<and> n < 192)"

definition char_count :: "string \<Rightarrow> nat" where
  "char_count s = length (filter (\<lambda>c. \<not> is_continuation c) s)"

fun take_chars :: "nat \<Rightarrow> string \<Rightarrow> string" where
  "take_chars n [] = []"
| "take_chars n (c # cs) =
     (if is_continuation c then c # take_chars n cs
      else (case n of 0 \<Rightarrow> [] | Suc m \<Rightarrow> c # take_chars m cs))"

text \<open>\<^verbatim>\<open>str.split(',')\<close>.\<close>

fun split_on :: "char \<Rightarrow> string \<Rightarrow> string list" where
  "split_on c [] = [[]]"
| "split_on c (x # xs) =
     (if x = c then [] # split_on c xs
      else (case split_on c xs of [] \<Rightarrow> [[x]] | w # ws \<Rightarrow> (x # w) # ws))"

text \<open>\<^verbatim>\<open>str(n)\<close> of a count.\<close>

function str_of_nat :: "nat \<Rightarrow> string" where
  "str_of_nat n =
     (if n < 10 then [char_of (48 + n)]
      else str_of_nat (n div 10) @ [char_of (48 + n mod 10)])"
  by pat_completeness auto
termination
  by (relation "measure id") auto

declare str_of_nat.simps [simp del]

text \<open>
  SQL comparisons are three-valued: a \<^verbatim>\<open>NULL\<close> column satisfies neither
  \<^verbatim>\<open>col = ?\<close>, nor \<^verbatim>\<open>col IN (...)\<close>, nor \<^verbatim>\<open>col NOT IN (...)\<close>; a \<^verbatim>\<open>NULL\<close> parameter
  equals nothing.
\<close>

definition sql_eq :: "'a option \<Rightarrow> 'a option \<Rightarrow> bool" where
  "sql_eq col p = (case col of None \<Rightarrow> False | Some v \<Rightarrow> (case p of None \<Rightarrow> False | Some w \<Rightarrow> v = w))"

definition sql_in :: "'a option \<Rightarrow> 'a list \<Rightarrow> bool" where
  "sql_in col vs = (case col of None \<Rightarrow> False | Some v \<Rightarrow> v \<in> set vs)"

definition sql_not_in :: "'a option \<Rightarrow> 'a list \<Rightarrow> bool" where
  "sql_not_in col vs = (case col of None \<Rightarrow> False | Some v \<Rightarrow> v \<notin> set vs)"

text \<open>
  \<^verbatim>\<open>ORDER BY\<close>: a stable insertion sort for a given "comes no later than" relation;
  rows that the relation does not separate stay in scan order. \<^verbatim>\<open>LIMIT n\<close> keeps the
  first \<open>n\<close> rows, and all of them when \<open>n\<close> is negative.
\<close>

fun insert_by :: "('a \<Rightarrow> 'a \<Rightarrow> bool) \<Rightarrow> 'a \<Rightarrow> 'a list \<Rightarrow> 'a list" where
  "insert_by le x [] = [x]"
| "insert_by le x (y # ys) = (if le x y then x # y # ys else y # insert_by le x ys)"

definition order_by :: "('a \<Rightarrow> 'a \<Rightarrow> bool) \<Rightarrow> 'a list \<Rightarrow> 'a list" where
  "order_by le xs = foldr (insert_by le) xs []"

definition sql_limit :: "int \<Rightarrow> 'a list \<Rightarrow> 'a list" where
  "sql_limit n xs = (if n < 0 then xs else take (nat n) xs)"

text \<open>Descending order of a nullable timestamp: \<^verbatim>\<open>NULL\<close> is the smallest value, so it comes last.\<close>

definition ts_desc :: "timestamp option \<Rightarrow> timestamp option \<Rightarrow> bool" where
  "ts_desc a b = (case b of None \<Rightarrow> True | Some y \<Rightarrow> (case a of None \<Rightarrow> False | Some x \<Rightarrow> y \<le> x))"

text \<open>The \<^verbatim>\<open>CASE severity WHEN 'Critical' THEN 1 ... ELSE 5 END\<close> of the listings.\<close>

definition severity_rank :: "string option \<Rightarrow> nat" where
  "severity_rank s =
     (if s = Some ''Critical'' then 1
      else if s = Some ''High'' then 2
      else if s = Some ''Medium'' then 3
      else if s = Some ''Low'' then 4
      else 5)"

text \<open>\<^verbatim>\<open>UPDATE bug_reports SET ... WHERE bug_id = ?\<close>: every row with that id is rewritten.\<close>

definition sql_update :: "(bug_report \<Rightarrow> bug_report) \<Rightarrow> string \<Rightarrow> db \<Rightarrow> db" where
  "sql_update f bid d = map (\<lambda>r. if bug_id r = bid then f r else r) d"

text \<open>\<^verbatim>\<open>SELECT ... WHERE bug_id = ?\<close> followed by \<^verbatim>\<open>fetchone()\<close>.\<close>

definition fetchone :: "string \<Rightarrow> db \<Rightarrow> bug_report option" where
  "fetchone bid d = find (\<lambda>r. bug_id r = bid) d"

section \<open>Listing open bugs\<close>

text \<open>
  \<^verbatim>\<open>list_bug_reports(status, severity, limit)\<close>. The handler sends one table to the
  client: a heading with the number of rows, and the rows, which carry the columns
  selected with the defaults the loop fills in. The limit is bound as a parameter of
  the query; a number that does not fit 64 bits makes the binding raise
  \<^verbatim>\<open>OverflowError\<close>, and nothing is sent.
\<close>

record bug_listing =
  l_bug_id :: string
  l_title :: string
  l_severity :: string
  l_category :: string
  l_status :: "string option"
  l_reported_by :: string
  l_reported_at :: "timestamp option"
  l_has_screenshot :: string

definition none_word :: "string option \<Rightarrow> string option" where
  "none_word s = (if truthy s \<and> lower (py_str s) = ''none'' then None else s)"

definition list_bug_reports_where :: "string option \<Rightarrow> string option \<Rightarrow> bug_report \<Rightarrow> bool" where
  "list_bug_reports_where st sev r =
     (sql_not_in (status r) [''Dismissed'', ''Resolved'']
      \<and> (if truthy st then sql_eq (status r) st else True)
      \<and> (if truthy sev then sql_eq (severity r) sev else True))"

definition listing_of :: "bug_report \<Rightarrow> bug_listing" where
  "listing_of r =
     \<lparr> l_bug_id = bug_id r, l_title = title r,
       l_severity = py_or_str (severity r) ''Unassigned'',
       l_category = py_or_str (category r) ''Uncategorized'',
       l_status = status r, l_reported_by = username r,
       l_reported_at = reported_at r,
       l_has_screenshot =
         (if truthy (screenshot_name r) then [CHR 0xF0, CHR 0x9F, CHR 0x93, CHR 0xB8] else []) \<rparr>"

definition list_bug_reports ::
  "string option \<Rightarrow> string option \<Rightarrow> int \<Rightarrow> db \<Rightarrow> py_error + string \<times> bug_listing list" where
  "list_bug_reports status0 severity0 limit d =
     (let st = none_word status0; sev = none_word severity0
      in if limit < - (2 ^ 63) \<or> 2 ^ 63 \<le> limit
         then Inl (OverflowError ''Python int too large to convert to SQLite INTEGER'')
         else
           let rows = sql_limit limit
                        (order_by (\<lambda>a b. ts_desc (reported_at a) (reported_at b))
                           (filter (list_bug_reports_where st sev) d));
               bugs = map listing_of rows
           in Inr (''Bug Reports ('' @ str_of_nat (length bugs) @ '')'', bugs))"

text \<open>The rows a call of \<^verbatim>\<open>list_bug_reports\<close> sends to the client: none when it raises.\<close>

definition rows_sent :: "py_error + string \<times> bug_listing list \<Rightarrow> bug_listing list" where
  "rows_sent res = (case res of Inl err \<Rightarrow> [] | Inr (heading, bugs) \<Rightarrow> bugs)"

section \<open>The caller's environment and what a handler sends back\<close>

text \<open>
  What a handler reads from outside the table: the identity functions of the framework
  (\<^verbatim>\<open>atlantis.get_caller\<close>, \<^verbatim>\<open>get_client_id\<close>, \<^verbatim>\<open>get_session_id\<close>), the clock of
  \<^verbatim>\<open>CURRENT_TIMESTAMP\<close>, and the text of \<^verbatim>\<open>datetime.now().strftime(...)\<close>.
\<close>

record env =
  caller :: "string option"
  client_id :: "string option"
  session :: "string option"
  now :: timestamp
  clock_text :: string

text \<open>\<^verbatim>\<open>atlantis.get_caller() or client_id or d\<close>.\<close>

definition acting_user :: "env \<Rightarrow> string \<Rightarrow> string" where
  "acting_user e d = py_or_str (py_or (caller e) (client_id e)) d"

text \<open>
  A handler answers through \<^verbatim>\<open>atlantis.client_log\<close> (a line of text) or
  \<^verbatim>\<open>atlantis.client_data\<close> (a heading and a table of fields). The pictographs that
  open some lines are given by their UTF-8 bytes.
\<close>

datatype client_msg = Client_log string | Client_data string "(string \<times> string) list"

definition check_mark :: string where
  "check_mark = [CHR 0xE2, CHR 0x9C, CHR 0x85]"

definition cross_mark :: string where
  "cross_mark = [CHR 0xE2, CHR 0x9D, CHR 0x8C]"

definition back_arrow :: string where
  "back_arrow = [CHR 0xE2, CHR 0x86, CHR 0xA9, CHR 0xEF, CHR 0xB8, CHR 0x8F]"

definition right_arrow :: string where
  "right_arrow = [CHR 0xE2, CHR 0x86, CHR 0x92]"

definition nl :: string where
  "nl = [CHR 0x0A]"

text \<open>
  A dictionary decoded from JSON, with text or \<^verbatim>\<open>null\<close> values: the pairs in order.
  \<open>dict_get\<close> is \<^verbatim>\<open>d.get(k)\<close>.
\<close>

type_synonym pydict = "(string \<times> string option) list"

definition dict_get :: "pydict \<Rightarrow> string \<Rightarrow> string option" where
  "dict_get u k = (case map_of u k of None \<Rightarrow> None | Some v \<Rightarrow> v)"

text \<open>An \<^verbatim>\<open>UPDATE ... WHERE bug_id = ?\<close> whose parameter may be \<^verbatim>\<open>None\<close>: then no row matches.\<close>

definition sql_update_param :: "(bug_report \<Rightarrow> bug_report) \<Rightarrow> string option \<Rightarrow> db \<Rightarrow> db" where
  "sql_update_param f p d = (case p of None \<Rightarrow> d | Some bid \<Rightarrow> sql_update f bid d)"

section \<open>Submitting a report\<close>

text \<open>
  \<^verbatim>\<open>submit_bug_report\<close>. \<open>bug_uuid\<close> and \<open>user_uuid\<close> are the values of the two
  \<^verbatim>\<open>uuid.uuid4()\<close> calls, \<open>sysinfo\<close> the platform line, \<open>shots_dir\<close> the screenshot
  directory and \<open>write_ok\<close> tells whether decoding and writing the screenshot went
  through (its \<^verbatim>\<open>except\<close> branch resets the path). The handler checks none of its
  arguments before the \<^verbatim>\<open>INSERT\<close>; the primary key refuses an id that is in the table.
\<close>

definition inserted_row ::
  "env \<Rightarrow> string \<Rightarrow> string \<Rightarrow> string \<Rightarrow> string \<Rightarrow> string \<Rightarrow> string option \<Rightarrow> string option
     \<Rightarrow> string option \<Rightarrow> string option \<Rightarrow> bug_report" where
  "inserted_row e bug_uuid user_uuid sysinfo title0 description0 repro logs shot_path shot_name =
     \<lparr> bug_id = bug_uuid,
       user_id = py_or_str (client_id e) user_uuid,
       username = py_or_str (caller e) ''unknown'',
       session_id = Some (py_or_str (session e) ''unknown''),
       title = title0, description = description0, reproduction_steps = repro,
       severity = None, category = None, system_info = Some sysinfo,
       log_context = logs, screenshot_path = shot_path, screenshot_name = shot_name,
       status = Some ''New'', assigned_to = None, assigned_at = None,
       progress_notes = None, reported_at = Some (now e), updated_at = Some (now e) \<rparr>"

definition submit_bug_report ::
  "env \<Rightarrow> string \<Rightarrow> string \<Rightarrow> string \<Rightarrow> string \<Rightarrow> bool \<Rightarrow> string \<Rightarrow> string \<Rightarrow> string option
     \<Rightarrow> string option \<Rightarrow> string option \<Rightarrow> string option \<Rightarrow> db
     \<Rightarrow> py_error + (client_msg list \<times> db)" where
  "submit_bug_report e bug_uuid user_uuid sysinfo shots_dir write_ok
       title0 description0 repro logs shot_data shot_name d =
     (let shot_path =
            (if truthy shot_data \<and> truthy shot_name \<and> write_ok
             then Some (shots_dir @ ''/'' @ bug_uuid @ ''_'' @ py_str shot_name)
             else None)
      in if bug_uuid \<in> bug_ids_of d then Inl (IntegrityError ''UNIQUE constraint failed: bug_reports.bug_id'')
         else
           let row = inserted_row e bug_uuid user_uuid sysinfo title0 description0 repro logs
                       shot_path shot_name;
               result = [(''Bug ID'', bug_uuid), (''Title'', title0),
                         (''Session'', py_or_str (session e) ''unknown''), (''System'', sysinfo)]
                        @ (if truthy shot_path then [(''Screenshot'', py_str shot_name)] else [])
           in Inr ([Client_data (check_mark @ '' Bug Report Submitted'') result], d @ [row]))"

section \<open>Single-record updates\<close>

text \<open>
  \<^verbatim>\<open>update_bug_severity\<close>, \<^verbatim>\<open>update_bug_category\<close>, \<^verbatim>\<open>update_bug_status\<close> and
  \<^verbatim>\<open>_resolve_bug\<close>: one \<^verbatim>\<open>UPDATE\<close>, then the same line to the client whether or not
  a row matched.
\<close>

definition update_bug_severity :: "env \<Rightarrow> string \<Rightarrow> string \<Rightarrow> db \<Rightarrow> client_msg list \<times> db" where
  "update_bug_severity e bid severity0 d =
     (let sev = (if severity0 = [] then None else Some severity0)
      in ([Client_log (check_mark @ '' Bug '' @ bid @ '' severity updated to '' @ py_str sev)],
          sql_update (\<lambda>r. r\<lparr>severity := sev, updated_at := Some (now e)\<rparr>) bid d))"

definition update_bug_category :: "env \<Rightarrow> string \<Rightarrow> string \<Rightarrow> db \<Rightarrow> client_msg list \<times> db" where
  "update_bug_category e bid category0 d =
     (let cat = (if category0 = [] then None else Some category0)
      in ([Client_log (check_mark @ '' Bug '' @ bid @ '' category updated to '' @ py_str cat)],
          sql_update (\<lambda>r. r\<lparr>category := cat, updated_at := Some (now e)\<rparr>) bid d))"

definition update_bug_status :: "env \<Rightarrow> string \<Rightarrow> string \<Rightarrow> db \<Rightarrow> client_msg list \<times> db" where
  "update_bug_status e bid status0 d =
     ([Client_log (check_mark @ '' Bug '' @ bid @ '' status updated to '' @ status0)],
      sql_update (\<lambda>r. r\<lparr>status := Some status0, updated_at := Some (now e)\<rparr>) bid d)"

definition resolve_bug :: "env \<Rightarrow> string \<Rightarrow> db \<Rightarrow> client_msg list \<times> db" where
  "resolve_bug e bid d =
     ([Client_log (check_mark @ '' Bug '' @ bid @ '' marked as Resolved!'')],
      sql_update (\<lambda>r. r\<lparr>status := Some ''Resolved'', updated_at := Some (now e)\<rparr>) bid d)"

section \<open>Notes: send-back, fix-complete and progress save\<close>

text \<open>
  \<^verbatim>\<open>_send_bug_back_to_dev\<close> reads the notes of the bug (the empty text when there is no
  row or the column is \<^verbatim>\<open>NULL\<close>), appends its block and writes the result back.
\<close>

definition current_notes :: "string \<Rightarrow> db \<Rightarrow> string" where
  "current_notes bid d =
     (case fetchone bid d of None \<Rightarrow> [] | Some r \<Rightarrow> py_or_str (progress_notes r) [])"

definition send_bug_back_to_dev :: "env \<Rightarrow> string \<Rightarrow> string \<Rightarrow> string \<Rightarrow> db \<Rightarrow> client_msg list \<times> db" where
  "send_bug_back_to_dev e bid assigned_to0 notes d =
     (let new_note = nl @ nl @ ''['' @ clock_text e @ ''] Sent back by '' @ acting_user e ''unknown''
                       @ '':'' @ nl @ notes;
          updated_notes = current_notes bid d @ new_note
      in ([Client_log (back_arrow @ '' Bug '' @ bid @ '' sent back to '' @ assigned_to0)],
          sql_update (\<lambda>r. r\<lparr>status := Some ''Assigned'', progress_notes := Some updated_notes,
                              updated_at := Some (now e)\<rparr>) bid d))"

text \<open>
  \<^verbatim>\<open>ai_fix_bug\<close> is the one update that looks for the row first and answers
  \<^verbatim>\<open>Bug not found\<close>. It returns a dictionary beside its messages.
\<close>

definition ai_fix_bug ::
  "env \<Rightarrow> string \<Rightarrow> string \<Rightarrow> db \<Rightarrow> (client_msg list \<times> (string \<times> string) list) \<times> db" where
  "ai_fix_bug e bid fix_notes d =
     (case fetchone bid d of
        None \<Rightarrow> (([Client_log (cross_mark @ '' Bug '' @ bid @ '' not found'')],
                  [(''status'', ''error''), (''message'', ''Bug not found'')]), d)
      | Some row \<Rightarrow>
          let ai_name = acting_user e ''AI'';
              new_note = nl @ nl @ ''['' @ clock_text e @ ''] Fixed by '' @ ai_name @ '':'' @ nl @ fix_notes;
              updated_notes = py_or_str (progress_notes row) [] @ new_note;
              result = [(''Bug ID'', bid), (''Title'', title row),
                        (''Status'', ''Good-to-Test '' @ check_mark), (''Fixed By'', ai_name),
                        (''Fix Notes'', fix_notes)]
          in (([Client_data (check_mark @ '' Bug Fixed and Ready for Testing'') result],
               [(''status'', ''success''), (''bug_id'', bid), (''new_status'', ''Good-to-Test'')]),
              sql_update (\<lambda>r. r\<lparr>status := Some ''Good-to-Test'', progress_notes := Some updated_notes,
                                  updated_at := Some (now e)\<rparr>) bid d))"

text \<open>
  \<^verbatim>\<open>_save_bug_progress\<close> takes the decoded list of updates. Each update must have the
  keys \<^verbatim>\<open>bug_id\<close> and \<^verbatim>\<open>status\<close> (a \<^verbatim>\<open>KeyError\<close> otherwise, which leaves the earlier
  writes in the connection); \<^verbatim>\<open>notes\<close> defaults to the empty text. The \<^verbatim>\<open>UPDATE\<close>
  sets \<^verbatim>\<open>progress_notes\<close> to the notes given.
\<close>

fun save_progress_loop :: "env \<Rightarrow> pydict list \<Rightarrow> db \<Rightarrow> py_error option \<times> db" where
  "save_progress_loop e [] d = (None, d)"
| "save_progress_loop e (u # us) d =
     (case map_of u ''bug_id'' of
        None \<Rightarrow> (Some (KeyError ''bug_id''), d)
      | Some bid \<Rightarrow>
          (case map_of u ''status'' of
             None \<Rightarrow> (Some (KeyError ''status''), d)
           | Some st \<Rightarrow>
               let notes = (case map_of u ''notes'' of None \<Rightarrow> Some [] | Some n \<Rightarrow> n)
               in save_progress_loop e us
                    (sql_update_param
                       (\<lambda>r. r\<lparr>status := st, progress_notes := notes, updated_at := Some (now e)\<rparr>)
                       bid d)))"

definition save_bug_progress :: "env \<Rightarrow> pydict list \<Rightarrow> db \<Rightarrow> (py_error + client_msg list) \<times> db" where
  "save_bug_progress e update_list d =
     (case save_progress_loop e update_list d of
        (Some err, d') \<Rightarrow> (Inl err, d')
      | (None, d') \<Rightarrow>
          (Inr [Client_log (check_mark @ '' Updated '' @ str_of_nat (length update_list)
                            @ '' bug(s) successfully!'')], d'))"

section \<open>Assignment\<close>

text \<open>
  \<^verbatim>\<open>_assign_bugs_to_me\<close>: the ids are the non-blank pieces of the comma-separated
  argument, stripped. The loop runs one \<^verbatim>\<open>UPDATE\<close> per id and counts the ids. The
  handler returns nothing; it reports the count to the client in the field
  \<^verbatim>\<open>Bugs Assigned\<close> of its table.
\<close>

definition bug_id_list :: "string \<Rightarrow> string list" where
  "bug_id_list bug_ids = map strip (filter (\<lambda>b. strip b \<noteq> []) (split_on CHR '','' bug_ids))"

definition assign_row :: "string \<Rightarrow> timestamp \<Rightarrow> bug_report \<Rightarrow> bug_report" where
  "assign_row user t r =
     r\<lparr>assigned_to := Some user, assigned_at := Some t, status := Some ''Assigned'',
       updated_at := Some t\<rparr>"

fun assign_loop :: "string \<Rightarrow> timestamp \<Rightarrow> string list \<Rightarrow> nat \<Rightarrow> db \<Rightarrow> nat \<times> db" where
  "assign_loop user t [] assigned_count d = (assigned_count, d)"
| "assign_loop user t (bid # bids) assigned_count d =
     assign_loop user t bids (assigned_count + 1) (sql_update (assign_row user t) bid d)"

definition assign_bugs_to_me :: "env \<Rightarrow> string \<Rightarrow> db \<Rightarrow> client_msg list \<times> db" where
  "assign_bugs_to_me e bug_ids d =
     (let user = acting_user e ''unknown'';
          (assigned_count, d') = assign_loop user (now e) (bug_id_list bug_ids) 0 d
      in ([Client_data (check_mark @ '' To-Do List Created'')
             [(''Assigned To'', user), (''Bugs Assigned'', str_of_nat assigned_count)],
           Client_log ''Use my_assigned_bugs() to view your to-do list!''], d'))"

section \<open>Pending-work listings\<close>

text \<open>
  The \<^verbatim>\<open>ORDER BY\<close> clauses. The picker and the to-do list order by the severity rank
  and then by a timestamp, descending; the tester queue orders by the severity rank
  alone.
\<close>

definition by_severity_then :: "(bug_report \<Rightarrow> timestamp option) \<Rightarrow> bug_report \<Rightarrow> bug_report \<Rightarrow> bool" where
  "by_severity_then ts a b =
     (severity_rank (severity a) < severity_rank (severity b)
      \<or> (severity_rank (severity a) = severity_rank (severity b) \<and> ts_desc (ts a) (ts b)))"

definition by_severity :: "bug_report \<Rightarrow> bug_report \<Rightarrow> bool" where
  "by_severity a b = (severity_rank (severity a) \<le> severity_rank (severity b))"

text \<open>The query of \<^verbatim>\<open>assign_bugs_interactive\<close> (the unassigned-bug picker).\<close>

definition assign_bugs_interactive_rows :: "db \<Rightarrow> bug_report list" where
  "assign_bugs_interactive_rows d =
     order_by (by_severity_then reported_at)
       (filter (\<lambda>r. sql_in (status r) [''New'', ''Triaged'']
                     \<and> (assigned_to r = None \<or> sql_eq (assigned_to r) (Some [])))
          d)"

definition assign_bugs_interactive :: "db \<Rightarrow> client_msg + bug_report list" where
  "assign_bugs_interactive d =
     (let bugs = assign_bugs_interactive_rows d
      in if bugs = [] then Inl (Client_log (check_mark @ '' No unassigned bugs available!''))
         else Inr bugs)"

text \<open>The query of \<^verbatim>\<open>my_assigned_bugs_table\<close> (the per-actor to-do list) and its rows.\<close>

definition my_assigned_bugs_rows :: "env \<Rightarrow> db \<Rightarrow> bug_report list" where
  "my_assigned_bugs_rows e d =
     order_by (by_severity_then assigned_at)
       (filter (\<lambda>r. (sql_eq (assigned_to r) (Some (acting_user e ''unknown''))
                      \<or> sql_eq (assigned_to r) (client_id e))
                     \<and> sql_not_in (status r) [''Resolved'', ''Dismissed''])
          d)"

record todo_item =
  t_bug_id :: string
  t_title :: string
  t_severity :: string
  t_category :: string
  t_status :: "string option"
  t_description :: string
  t_assigned_at :: "timestamp option"

definition todo_of :: "bug_report \<Rightarrow> todo_item" where
  "todo_of r =
     \<lparr> t_bug_id = bug_id r, t_title = title r,
       t_severity = py_or_str (severity r) ''Unset'',
       t_category = py_or_str (category r) ''Uncategorized'',
       t_status = status r,
       t_description = (if char_count (description r) > 80
                        then take_chars 80 (description r) @ ''...''
                        else description r),
       t_assigned_at = assigned_at r \<rparr>"

definition my_assigned_bugs_table :: "env \<Rightarrow> db \<Rightarrow> client_msg + string \<times> todo_item list" where
  "my_assigned_bugs_table e d =
     (let rows = my_assigned_bugs_rows e d; bugs = map todo_of rows
      in if rows = []
         then Inl (Client_log ([CHR 0xF0, CHR 0x9F, CHR 0x93, CHR 0xAD] @ '' No bugs currently assigned to you!''))
         else Inr ([CHR 0xF0, CHR 0x9F, CHR 0x94, CHR 0xA7] @ '' My To-Do List (''
                     @ str_of_nat (length bugs) @ '' bugs)'', bugs))"

text \<open>The query of \<^verbatim>\<open>bugs_ready_for_testing\<close> (the tester queue).\<close>

definition bugs_ready_for_testing_rows :: "db \<Rightarrow> bug_report list" where
  "bugs_ready_for_testing_rows d =
     order_by by_severity (filter (\<lambda>r. sql_eq (status r) (Some ''Good-to-Test'')) d)"

definition bugs_ready_for_testing :: "db \<Rightarrow> client_msg + bug_report list" where
  "bugs_ready_for_testing d =
     (let bugs = bugs_ready_for_testing_rows d
      in if bugs = [] then Inl (Client_log (check_mark @ '' No bugs waiting for testing!''))
         else Inr bugs)"

section \<open>Bulk update for automated callers\<close>



definition apply_field ::
  "env \<Rightarrow> string \<Rightarrow> pydict \<Rightarrow> string \<Rightarrow> (string option \<Rightarrow> bug_report \<Rightarrow> bug_report)
     \<Rightarrow> string list \<times> db \<Rightarrow> string list \<times> db" where
  "apply_field e b u k setter ad =
     (if truthy (dict_get u k)
      then (fst ad @ [''Bug '' @ take_chars 8 b @ '' '' @ k @ '' '' @ right_arrow @ '' '' @ py_str (dict_get u k)],
            sql_update (\<lambda>r. (setter (dict_get u k) r)\<lparr>updated_at := Some (now e)\<rparr>) b (snd ad))
      else ad)"




section \<open>The lifecycle graph of the specification\<close>


text \<open>What \<^verbatim>\<open>get_bug_details\<close> reads back for one id: the status of its row, if there is one.\<close>

definition status_of :: "string \<Rightarrow> db \<Rightarrow> string option option" where
  "status_of bid d = map_option status (fetchone bid d)"

section \<open>The ordering key of the specification\<close>

text \<open>
  The order the specification prescribes for a pending-work listing, in its own words:
  first by severity rank, ascending, with Critical 1, High 2, Medium 3, Low 4 and
  unset 5; then by the timestamp, descending, the most recent first. Any other text in
  the severity column counts as unset, and a row without the timestamp as the oldest.
  These definitions are taken from the specification; the theorems below compare the
  \<^verbatim>\<open>ORDER BY\<close> clauses of the code with them.
\<close>

definition spec_severity_rank :: "string option \<Rightarrow> nat" where
  "spec_severity_rank sev =
     (case sev of
        None \<Rightarrow> 5
      | Some s \<Rightarrow>
          if s = ''Critical'' then 1 else if s = ''High'' then 2
          else if s = ''Medium'' then 3 else if s = ''Low'' then 4 else 5)"

definition most_recent_first :: "timestamp option \<Rightarrow> timestamp option \<Rightarrow> bool" where
  "most_recent_first a b =
     (case a of
        None \<Rightarrow> b = None
      | Some x \<Rightarrow> (case b of None \<Rightarrow> True | Some y \<Rightarrow> y \<le> x))"

definition spec_triage_order :: "(bug_report \<Rightarrow> timestamp option) \<Rightarrow> bug_report \<Rightarrow> bug_report \<Rightarrow> bool" where
  "spec_triage_order ts a b =
     (spec_severity_rank (severity a) < spec_severity_rank (severity b)
      \<or> (spec_severity_rank (severity a) = spec_severity_rank (severity b)
          \<and> most_recent_first (ts a) (ts b)))"

section \<open>Sample data\<close>

text \<open>An environment and a few rows on which the theorems below are run.\<close>

definition alice :: env where
  "alice = \<lparr> caller = Some ''alice'', client_id = Some ''c-1'', session = Some ''s-1'',
             now = 200, clock_text = ''2025-01-01 10:00:00'' \<rparr>"

definition sample_bug :: "string \<Rightarrow> timestamp \<Rightarrow> bug_report" where
  "sample_bug bid t =
     inserted_row (alice\<lparr>caller := Some ''rita'', now := t\<rparr>) bid ''u-1'' ''Linux'' ''T'' ''D''
       None None None None"

definition bob :: env where
  "bob = alice\<lparr>caller := Some ''bob'', client_id := Some ''c-2''\<rparr>"

definition sample_db :: db where
  "sample_db =
     [ (sample_bug ''b1'' 10)\<lparr>status := Some ''Resolved''\<rparr>,
       (sample_bug ''b2'' 20)\<lparr>severity := Some ''High''\<rparr>,
       (sample_bug ''b3'' 30)\<lparr>status := Some ''Good-to-Test'', severity := Some ''High'',
                               assigned_to := Some ''alice'', assigned_at := Some 40\<rparr>,
       (sample_bug ''b4'' 35)\<lparr>status := Some ''Good-to-Test'', severity := Some ''High'',
                               assigned_to := Some ''alice'', assigned_at := Some 50\<rparr> ]"

text \<open>
  Six open, unassigned bugs of all severities, and the same six assigned to alice and
  ready for testing, each assigned 100 seconds after it was reported.
\<close>

definition triage_db :: db where
  "triage_db =
     [ (sample_bug ''t1'' 10)\<lparr>severity := Some ''Low''\<rparr>,
       (sample_bug ''t2'' 20)\<lparr>severity := Some ''Critical''\<rparr>,
       (sample_bug ''t3'' 30)\<lparr>severity := Some ''Medium''\<rparr>,
       sample_bug ''t4'' 40,
       (sample_bug ''t5'' 50)\<lparr>severity := Some ''High''\<rparr>,
       (sample_bug ''t6'' 60)\<lparr>severity := Some ''Critical''\<rparr> ]"

definition testing_db :: db where
  "testing_db =
     map (\<lambda>r. r\<lparr>status := Some ''Good-to-Test'', assigned_to := Some ''alice'',
                assigned_at := map_option (\<lambda>t. t + 100) (reported_at r)\<rparr>) triage_db"

definition sent_back_db :: db where
  "sent_back_db = snd (send_bug_back_to_dev bob ''b3'' ''alice'' ''still crashes'' sample_db)"

section \<open>Facts about the primitives and the handlers\<close>

lemma set_insert_by: "set (insert_by le x xs) = insert x (set xs)"
  by (induction xs) auto

lemma set_order_by: "set (order_by le xs) = set xs"
  by (induction xs) (simp_all add: order_by_def set_insert_by)

lemma set_sql_limit: "set (sql_limit n xs) \<subseteq> set xs"
  by (auto simp: sql_limit_def dest: in_set_takeD)

lemma sql_update_absent: "bid \<notin> bug_ids_of d \<Longrightarrow> sql_update f bid d = d"
  by (induction d) (auto simp: sql_update_def bug_ids_of_def)

lemma fetchone_absent: "bid \<notin> bug_ids_of d \<Longrightarrow> fetchone bid d = None"
  by (induction d) (auto simp: fetchone_def bug_ids_of_def)

lemma fetchone_present: "bid \<in> bug_ids_of d \<Longrightarrow> \<exists>r. fetchone bid d = Some r \<and> bug_id r = bid"
  by (induction d) (auto simp: fetchone_def bug_ids_of_def)

lemma fetchone_map:
  assumes "\<And>r. bug_id (g r) = bug_id r"
  shows "fetchone bid (map g d) = map_option g (fetchone bid d)"
  using assms by (induction d) (auto simp: fetchone_def)

lemma fetchone_sql_update_same:
  assumes "\<And>r. bug_id (f r) = bug_id r"
  shows "fetchone bid (sql_update f bid d) = map_option f (fetchone bid d)"
  using assms by (induction d) (auto simp: fetchone_def sql_update_def)

lemma fetchone_sql_update_other:
  assumes "\<And>r. bug_id (f r) = bug_id r" and "bid' \<noteq> bid"
  shows "fetchone bid' (sql_update f bid d) = fetchone bid' d"
  using assms by (induction d) (auto simp: fetchone_def sql_update_def)


lemma fetchone_bug_id: "fetchone bid d = Some r \<Longrightarrow> bug_id r = bid"
  by (induction d) (auto simp: fetchone_def split: if_splits)

lemma assign_loop_eq:
  "assign_loop user t ids n d = (n + length ids, fold (sql_update (assign_row user t)) ids d)"
  by (induction ids arbitrary: n d) simp_all

lemma assign_row_idem: "assign_row user t (assign_row user t r) = assign_row user t r"
  by (simp add: assign_row_def)

lemma bug_id_assign_row: "bug_id (assign_row user t r) = bug_id r"
  by (simp add: assign_row_def)

lemma fold_assign_eq_map:
  "fold (sql_update (assign_row user t)) ids d =
     map (\<lambda>r. if bug_id r \<in> set ids then assign_row user t r else r) d"
proof (induction ids arbitrary: d)
  case Nil
  then show ?case by simp
next
  case (Cons bid ids)
  have "fold (sql_update (assign_row user t)) (bid # ids) d
          = fold (sql_update (assign_row user t)) ids (sql_update (assign_row user t) bid d)"
    by simp
  also have "\<dots> = map (\<lambda>r. if bug_id r \<in> set ids then assign_row user t r else r)
                     (sql_update (assign_row user t) bid d)"
    by (rule Cons.IH)
  also have "\<dots> = map (\<lambda>r. if bug_id r \<in> set (bid # ids) then assign_row user t r else r) d"
    by (simp add: sql_update_def bug_id_assign_row assign_row_idem)
  finally show ?case .
qed

lemma assign_bugs_to_me_db:
  "snd (assign_bugs_to_me e bug_ids d) =
     map (\<lambda>r. if bug_id r \<in> set (bug_id_list bug_ids)
               then assign_row (acting_user e ''unknown'') (now e) r else r) d"
  by (simp add: assign_bugs_to_me_def Let_def assign_loop_eq fold_assign_eq_map)

lemma assign_bugs_to_me_msgs:
  "fst (assign_bugs_to_me e bug_ids d) =
     [Client_data (check_mark @ '' To-Do List Created'')
        [(''Assigned To'', acting_user e ''unknown''),
         (''Bugs Assigned'', str_of_nat (length (bug_id_list bug_ids)))],
      Client_log ''Use my_assigned_bugs() to view your to-do list!'']"
  by (simp add: assign_bugs_to_me_def Let_def assign_loop_eq)


lemma status_of_sql_update_same:
  assumes "\<And>r. bug_id (f r) = bug_id r" and "\<And>r. status (f r) = s" and "bid \<in> bug_ids_of d"
  shows "status_of bid (sql_update f bid d) = Some s"
proof -
  from assms(3) obtain r where "fetchone bid d = Some r"
    using fetchone_present by blast
  then show ?thesis
    by (simp add: status_of_def fetchone_sql_update_same [OF assms(1)] assms(2))
qed

lemma status_of_sql_update_other:
  assumes "\<And>r. bug_id (f r) = bug_id r" and "bid' \<noteq> bid"
  shows "status_of bid' (sql_update f bid d) = status_of bid' d"
  by (simp add: status_of_def fetchone_sql_update_other [OF assms])

lemma current_notes_sql_update_same:
  assumes "\<And>r. bug_id (f r) = bug_id r" and "\<And>r. progress_notes (f r) = Some n" and "bid \<in> bug_ids_of d"
  shows "current_notes bid (sql_update f bid d) = n"
proof -
  from assms(3) obtain r where "fetchone bid d = Some r"
    using fetchone_present by blast
  then show ?thesis
    by (simp add: current_notes_def fetchone_sql_update_same [OF assms(1)] assms(2) py_or_str_def)
qed

lemma send_back_appends:
  assumes "bid \<in> bug_ids_of d"
  shows "current_notes bid (snd (send_bug_back_to_dev e bid dev reason d))
           = current_notes bid d @ nl @ nl @ ''['' @ clock_text e @ ''] Sent back by ''
               @ acting_user e ''unknown'' @ '':'' @ nl @ reason"
  using assms by (simp add: send_bug_back_to_dev_def Let_def current_notes_sql_update_same)

lemma ai_fix_appends:
  assumes "bid \<in> bug_ids_of d"
  shows "current_notes bid (snd (ai_fix_bug e bid fix_notes d))
           = current_notes bid d @ nl @ nl @ ''['' @ clock_text e @ ''] Fixed by ''
               @ acting_user e ''AI'' @ '':'' @ nl @ fix_notes"
proof -
  from assms obtain r where r: "fetchone bid d = Some r"
    using fetchone_present by blast
  then have "current_notes bid d = py_or_str (progress_notes r) []"
    by (simp add: current_notes_def)
  with r assms show ?thesis
    by (simp add: ai_fix_bug_def Let_def current_notes_sql_update_same)
qed


lemma sorted_wrt_insert_by:
  assumes total: "\<And>x y. le x y \<or> le y x" and trans: "\<And>x y z. le x y \<Longrightarrow> le y z \<Longrightarrow> le x z"
    and "sorted_wrt le xs"
  shows "sorted_wrt le (insert_by le x xs)"
  using assms(3)
proof (induction xs)
  case Nil
  then show ?case by simp
next
  case (Cons y ys)
  show ?case
  proof (cases "le x y")
    case True
    with Cons.prems trans show ?thesis by auto
  next
    case False
    with total have "le y x" by blast
    with False Cons show ?thesis
      by (auto simp: set_insert_by)
  qed
qed

lemma sorted_wrt_order_by:
  assumes "\<And>x y. le x y \<or> le y x" and "\<And>x y z. le x y \<Longrightarrow> le y z \<Longrightarrow> le x z"
  shows "sorted_wrt le (order_by le xs)"
proof (induction xs)
  case Nil
  then show ?case by (simp add: order_by_def)
next
  case (Cons x xs)
  have "order_by le (x # xs) = insert_by le x (order_by le xs)"
    by (simp add: order_by_def)
  with Cons sorted_wrt_insert_by [OF assms] show ?case
    by simp
qed

lemma ts_desc_total: "ts_desc a b \<or> ts_desc b a"
  by (auto simp: ts_desc_def split: option.splits)

lemma ts_desc_trans: "ts_desc a b \<Longrightarrow> ts_desc b c \<Longrightarrow> ts_desc a c"
  by (auto simp: ts_desc_def split: option.splits)

lemma by_severity_then_total: "by_severity_then ts a b \<or> by_severity_then ts b a"
  using ts_desc_total [of "ts a" "ts b"] by (auto simp: by_severity_then_def)

lemma by_severity_then_trans:
  "by_severity_then ts a b \<Longrightarrow> by_severity_then ts b c \<Longrightarrow> by_severity_then ts a c"
  using ts_desc_trans [of "ts a" "ts b" "ts c"] by (auto simp: by_severity_then_def)

lemma severity_rank_spec: "severity_rank sev = spec_severity_rank sev"
  by (cases sev) (simp_all add: severity_rank_def spec_severity_rank_def)

lemma ts_desc_spec: "ts_desc a b = most_recent_first a b"
  by (cases a; cases b) (simp_all add: ts_desc_def most_recent_first_def)

lemma by_severity_then_spec: "by_severity_then ts = spec_triage_order ts"
  by (intro ext) (simp add: by_severity_then_def spec_triage_order_def severity_rank_spec ts_desc_spec)

lemma by_severity_spec:
  "by_severity = (\<lambda>a b. spec_severity_rank (severity a) \<le> spec_severity_rank (severity b))"
  by (intro ext) (simp add: by_severity_def severity_rank_spec)

lemma filter_rank_insert_by:
  "filter (\<lambda>r. severity_rank (severity r) = k) (insert_by by_severity x xs)
     = filter (\<lambda>r. severity_rank (severity r) = k) (x # xs)"
  by (induction xs) (auto simp: by_severity_def)

lemma filter_rank_order_by:
  "filter (\<lambda>r. severity_rank (severity r) = k) (order_by by_severity xs)
     = filter (\<lambda>r. severity_rank (severity r) = k) xs"
proof (induction xs)
  case Nil
  then show ?case by (simp add: order_by_def)
next
  case (Cons x xs)
  have "order_by by_severity (x # xs) = insert_by by_severity x (order_by by_severity xs)"
    by (simp add: order_by_def)
  with Cons show ?case
    by (simp add: filter_rank_insert_by)
qed

lemma apply_field_acc:
  "apply_field e b u k setter (acc, d)
     = (acc @ fst (apply_field e b u k setter ([], d)), snd (apply_field e b u k setter ([], d)))"
  by (simp add: apply_field_def)




section \<open>Open listing\<close>

text \<open>
  C8. Whatever the table, the status filter, the severity filter and the limit,
  \<^verbatim>\<open>list_bug_reports\<close> returns no bug whose status is Resolved or Dismissed.
\<close>

theorem list_bug_reports_excludes_closed:
  "\<forall>b \<in> set (rows_sent (list_bug_reports st sev lim d)).
      l_status b \<noteq> Some ''Resolved'' \<and> l_status b \<noteq> Some ''Dismissed''"
proof
  fix b
  assume "b \<in> set (rows_sent (list_bug_reports st sev lim d))"
  then obtain r where b: "b = listing_of r"
    and "r \<in> set (sql_limit lim
           (order_by (\<lambda>a b. ts_desc (reported_at a) (reported_at b))
              (filter (list_bug_reports_where (none_word st) (none_word sev)) d)))"
    by (auto simp: list_bug_reports_def rows_sent_def Let_def split: if_splits)
  then have "r \<in> set (filter (list_bug_reports_where (none_word st) (none_word sev)) d)"
    using set_sql_limit set_order_by by fastforce
  then have r: "r \<in> set d" "list_bug_reports_where (none_word st) (none_word sev) r"
    by simp_all
  from r(2) have "sql_not_in (status r) [''Dismissed'', ''Resolved'']"
    by (simp add: list_bug_reports_where_def)
  then have "status r \<noteq> Some ''Resolved'' \<and> status r \<noteq> Some ''Dismissed''"
    by (auto simp: sql_not_in_def split: option.splits)
  with b show "l_status b \<noteq> Some ''Resolved'' \<and> l_status b \<noteq> Some ''Dismissed''"
    by (simp add: listing_of_def)
qed

theorem list_bug_reports_excludes_closed_witness:
  "listing_of ((sample_bug ''b2'' 20)\<lparr>severity := Some ''High''\<rparr>)
     \<in> set (rows_sent (list_bug_reports None None 20 sample_db))
   \<and> l_status (listing_of ((sample_bug ''b2'' 20)\<lparr>severity := Some ''High''\<rparr>)) \<noteq> Some ''Resolved''
   \<and> l_status (listing_of ((sample_bug ''b2'' 20)\<lparr>severity := Some ''High''\<rparr>)) \<noteq> Some ''Dismissed''"
proof -
  have mem: "listing_of ((sample_bug ''b2'' 20)\<lparr>severity := Some ''High''\<rparr>)
               \<in> set (rows_sent (list_bug_reports None None 20 sample_db))"
    by code_simp
  from list_bug_reports_excludes_closed [rule_format, OF mem] mem show ?thesis
    by simp
qed

section \<open>Updates of an id that is not in the table\<close>

text \<open>
  C5, as the specification states it: a single-record update called with an id that is
  not in the table reports "not found" and does not report success. On the sample table,
  which has no bug \<^verbatim>\<open>zz\<close>, \<^verbatim>\<open>update_bug_status\<close> and \<^verbatim>\<open>_resolve_bug\<close> answer with their
  success line; only \<^verbatim>\<open>ai_fix_bug\<close> answers that the bug was not found.
\<close>

theorem absent_id_counterexample:
  "''zz'' \<notin> bug_ids_of sample_db
   \<and> fst (update_bug_status alice ''zz'' ''Triaged'' sample_db) =
        [Client_log (check_mark @ '' Bug zz status updated to Triaged'')]
   \<and> fst (resolve_bug alice ''zz'' sample_db) =
        [Client_log (check_mark @ '' Bug zz marked as Resolved!'')]
   \<and> fst (fst (ai_fix_bug alice ''zz'' ''done'' sample_db)) =
        [Client_log (cross_mark @ '' Bug zz not found'')]"
  by code_simp

text \<open>
  C5, amended: called with an id that is not in the table, every single-record update
  leaves the table as it was. \<^verbatim>\<open>update_bug_severity\<close>, \<^verbatim>\<open>update_bug_category\<close>,
  \<^verbatim>\<open>update_bug_status\<close>, \<^verbatim>\<open>_resolve_bug\<close> and \<^verbatim>\<open>_send_bug_back_to_dev\<close> send the same
  acknowledgement as for an id that is there; \<^verbatim>\<open>ai_fix_bug\<close> alone reports that the
  bug was not found.
\<close>

theorem update_of_absent_id:
  assumes "bid \<notin> bug_ids_of d"
  shows "update_bug_severity e bid sev d =
           ([Client_log (check_mark @ '' Bug '' @ bid @ '' severity updated to ''
                         @ (if sev = [] then ''None'' else sev))], d)
       \<and> update_bug_category e bid cat d =
           ([Client_log (check_mark @ '' Bug '' @ bid @ '' category updated to ''
                         @ (if cat = [] then ''None'' else cat))], d)
       \<and> update_bug_status e bid st d =
           ([Client_log (check_mark @ '' Bug '' @ bid @ '' status updated to '' @ st)], d)
       \<and> resolve_bug e bid d =
           ([Client_log (check_mark @ '' Bug '' @ bid @ '' marked as Resolved!'')], d)
       \<and> send_bug_back_to_dev e bid dev reason d =
           ([Client_log (back_arrow @ '' Bug '' @ bid @ '' sent back to '' @ dev)], d)
       \<and> ai_fix_bug e bid fix_notes d =
           (([Client_log (cross_mark @ '' Bug '' @ bid @ '' not found'')],
             [(''status'', ''error''), (''message'', ''Bug not found'')]), d)"
proof -
  have upd: "sql_update f bid d = d" for f
    using assms by (rule sql_update_absent)
  have "fetchone bid d = None"
    using assms by (rule fetchone_absent)
  then show ?thesis
    by (simp add: update_bug_severity_def update_bug_category_def update_bug_status_def
        resolve_bug_def send_bug_back_to_dev_def ai_fix_bug_def upd py_str_def Let_def)
qed

theorem update_of_absent_id_witness:
  "''zz'' \<notin> bug_ids_of sample_db
   \<and> update_bug_severity alice ''zz'' ''High'' sample_db =
        ([Client_log (check_mark @ '' Bug zz severity updated to High'')], sample_db)
   \<and> resolve_bug alice ''zz'' sample_db =
        ([Client_log (check_mark @ '' Bug zz marked as Resolved!'')], sample_db)
   \<and> fst (ai_fix_bug alice ''zz'' ''done'' sample_db) =
        ([Client_log (cross_mark @ '' Bug zz not found'')],
         [(''status'', ''error''), (''message'', ''Bug not found'')])"
proof -
  have absent: "''zz'' \<notin> bug_ids_of sample_db"
    by code_simp
  from update_of_absent_id [OF absent, where e = alice and sev = "''High''" and fix_notes = "''done''"]
    absent
  show ?thesis by simp
qed

section \<open>The count reported by the assignment\<close>

text \<open>
  C10. \<^verbatim>\<open>_assign_bugs_to_me\<close> reports as assigned the number of non-blank ids in its
  comma-separated argument: the field \<^verbatim>\<open>Bugs Assigned\<close> of its answer is that number,
  the counter going up once per id whether or not a bug with that id is in the table.
  In particular, when none of the ids is in the table, the table is left as it was and
  every id is still counted. A piece is blank when only white space is left of it,
  white space outside ASCII included.
\<close>

theorem assigned_count_counts_every_id:
  "fst (assign_bugs_to_me e bug_ids d)
     = [Client_data (check_mark @ '' To-Do List Created'')
          [(''Assigned To'', acting_user e ''unknown''),
           (''Bugs Assigned'',
            str_of_nat (length (filter (\<lambda>b. strip b \<noteq> []) (split_on CHR '','' bug_ids))))],
        Client_log ''Use my_assigned_bugs() to view your to-do list!'']
   \<and> (set (bug_id_list bug_ids) \<inter> bug_ids_of d = {}
        \<longrightarrow> snd (assign_bugs_to_me e bug_ids d) = d)"
proof -
  have "map (\<lambda>r. if bug_id r \<in> set (bug_id_list bug_ids)
               then assign_row (acting_user e ''unknown'') (now e) r else r) d = d"
    if "set (bug_id_list bug_ids) \<inter> bug_ids_of d = {}"
    using that by (intro map_idI) (auto simp: bug_ids_of_def)
  moreover have "length (bug_id_list bug_ids)
                   = length (filter (\<lambda>b. strip b \<noteq> []) (split_on CHR '','' bug_ids))"
    by (simp add: bug_id_list_def)
  ultimately show ?thesis
    by (simp add: assign_bugs_to_me_msgs assign_bugs_to_me_db)
qed

theorem assigned_count_counts_every_id_witness:
  "set (bug_id_list ''zz, ,yy'') \<inter> bug_ids_of sample_db = {}
   \<and> fst (assign_bugs_to_me alice ''zz, ,yy'' sample_db)
       = [Client_data (check_mark @ '' To-Do List Created'')
            [(''Assigned To'', ''alice''), (''Bugs Assigned'', ''2'')],
          Client_log ''Use my_assigned_bugs() to view your to-do list!'']
   \<and> snd (assign_bugs_to_me alice ''zz, ,yy'' sample_db) = sample_db
   \<and> fst (assign_bugs_to_me alice
             ([CHR 0xC2, CHR 0xA0] @ '',b2'' @ [CHR 0xE2, CHR 0x80, CHR 0x83]) sample_db)
       = [Client_data (check_mark @ '' To-Do List Created'')
            [(''Assigned To'', ''alice''), (''Bugs Assigned'', ''1'')],
          Client_log ''Use my_assigned_bugs() to view your to-do list!'']
   \<and> status_of ''b2''
         (snd (assign_bugs_to_me alice
                 ([CHR 0xC2, CHR 0xA0] @ '',b2'' @ [CHR 0xE2, CHR 0x80, CHR 0x83]) sample_db))
       = Some (Some ''Assigned'')"
proof -
  have none: "set (bug_id_list ''zz, ,yy'') \<inter> bug_ids_of sample_db = {}"
    by code_simp
  have two: "str_of_nat (length (filter (\<lambda>b. strip b \<noteq> []) (split_on CHR '','' ''zz, ,yy''))) = ''2''"
    by code_simp
  have one: "str_of_nat (length (filter (\<lambda>b. strip b \<noteq> [])
               (split_on CHR '','' ([CHR 0xC2, CHR 0xA0] @ '',b2'' @ [CHR 0xE2, CHR 0x80, CHR 0x83]))))
             = ''1''"
    by code_simp
  have who: "acting_user alice ''unknown'' = ''alice''"
    by code_simp
  have taken: "status_of ''b2''
         (snd (assign_bugs_to_me alice
                 ([CHR 0xC2, CHR 0xA0] @ '',b2'' @ [CHR 0xE2, CHR 0x80, CHR 0x83]) sample_db))
       = Some (Some ''Assigned'')"
    by code_simp
  from assigned_count_counts_every_id [where e = alice and bug_ids = "''zz, ,yy''" and d = sample_db]
       assigned_count_counts_every_id
         [where e = alice and d = sample_db
            and bug_ids = "[CHR 0xC2, CHR 0xA0] @ '',b2'' @ [CHR 0xE2, CHR 0x80, CHR 0x83]"]
       none two one who taken
  show ?thesis by simp
qed

section \<open>What the assignment writes\<close>

text \<open>
  C2, as the specification states it: a bug is set to Assigned only if it is New or
  Triaged and has no assignee. On the sample table, bug \<^verbatim>\<open>b1\<close> is Resolved and bug
  \<^verbatim>\<open>b3\<close> is Good-to-Test and assigned to alice; the assignment sets the first to
  Assigned, and hands the second to bob with status Assigned.
\<close>

theorem assignment_counterexample:
  "status_of ''b1'' sample_db = Some (Some ''Resolved'')
   \<and> status_of ''b1'' (snd (assign_bugs_to_me alice ''b1'' sample_db)) = Some (Some ''Assigned'')
   \<and> map_option assigned_to (fetchone ''b3'' sample_db) = Some (Some ''alice'')
   \<and> status_of ''b3'' sample_db = Some (Some ''Good-to-Test'')
   \<and> map_option assigned_to (fetchone ''b3'' (snd (assign_bugs_to_me bob ''b3'' sample_db)))
        = Some (Some ''bob'')
   \<and> status_of ''b3'' (snd (assign_bugs_to_me bob ''b3'' sample_db)) = Some (Some ''Assigned'')"
  by code_simp

text \<open>
  C2, amended: for every id in the argument that is in the table, the assignment sets
  the assignee to the caller, \<^verbatim>\<open>assigned_at\<close> to the current time and the status to
  Assigned, whatever the status and the assignee were; a bug whose id is not in the
  argument is left as it was. The restriction is in the picker that feeds the handler:
  it lists exactly the bugs of the table whose status is New or Triaged and whose
  assignee is unset or empty.
\<close>

theorem assignment_is_unconditional:
  "(bid \<in> set (bug_id_list bug_ids) \<and> bid \<in> bug_ids_of d
      \<longrightarrow> (\<exists>r. fetchone bid (snd (assign_bugs_to_me e bug_ids d)) = Some r
               \<and> assigned_to r = Some (acting_user e ''unknown'')
               \<and> assigned_at r = Some (now e)
               \<and> status r = Some ''Assigned''))
   \<and> (bid \<notin> set (bug_id_list bug_ids)
      \<longrightarrow> fetchone bid (snd (assign_bugs_to_me e bug_ids d)) = fetchone bid d)
   \<and> set (assign_bugs_interactive_rows d)
       = {r \<in> set d. (status r = Some ''New'' \<or> status r = Some ''Triaged'')
                       \<and> (assigned_to r = None \<or> assigned_to r = Some [])}"
proof -
  let ?g = "\<lambda>r. if bug_id r \<in> set (bug_id_list bug_ids)
                 then assign_row (acting_user e ''unknown'') (now e) r else r"
  have after: "fetchone bid (snd (assign_bugs_to_me e bug_ids d)) = map_option ?g (fetchone bid d)"
    by (simp add: assign_bugs_to_me_db fetchone_map bug_id_assign_row)
  have listed: "\<exists>r. fetchone bid (snd (assign_bugs_to_me e bug_ids d)) = Some r
               \<and> assigned_to r = Some (acting_user e ''unknown'')
               \<and> assigned_at r = Some (now e)
               \<and> status r = Some ''Assigned''"
    if "bid \<in> set (bug_id_list bug_ids)" and "bid \<in> bug_ids_of d"
  proof -
    from that(2) obtain r0 where r0: "fetchone bid d = Some r0" "bug_id r0 = bid"
      using fetchone_present by blast
    with that(1) have "fetchone bid (snd (assign_bugs_to_me e bug_ids d))
                         = Some (assign_row (acting_user e ''unknown'') (now e) r0)"
      by (simp add: after)
    then show ?thesis
      by (simp add: assign_row_def)
  qed
  have other: "fetchone bid (snd (assign_bugs_to_me e bug_ids d)) = fetchone bid d"
    if "bid \<notin> set (bug_id_list bug_ids)"
  proof (cases "fetchone bid d")
    case None
    then show ?thesis by (simp add: after)
  next
    case (Some r0)
    with that fetchone_bug_id [OF Some] show ?thesis
      by (simp add: after)
  qed
  have picker: "set (assign_bugs_interactive_rows d)
       = {r \<in> set d. (status r = Some ''New'' \<or> status r = Some ''Triaged'')
                       \<and> (assigned_to r = None \<or> assigned_to r = Some [])}"
  proof -
    have cond: "(sql_in (status r) [''New'', ''Triaged'']
            \<and> (assigned_to r = None \<or> sql_eq (assigned_to r) (Some [])))
          = ((status r = Some ''New'' \<or> status r = Some ''Triaged'')
              \<and> (assigned_to r = None \<or> assigned_to r = Some []))" for r
      by (cases "status r"; cases "assigned_to r") (auto simp: sql_in_def sql_eq_def)
    show ?thesis
      by (simp add: assign_bugs_interactive_rows_def set_order_by cond)
  qed
  from listed other picker show ?thesis by blast
qed

theorem assignment_is_unconditional_witness:
  "''b1'' \<in> set (bug_id_list ''b1, b3'') \<and> ''b1'' \<in> bug_ids_of sample_db
   \<and> status_of ''b1'' sample_db = Some (Some ''Resolved'')
   \<and> (\<exists>r. fetchone ''b1'' (snd (assign_bugs_to_me bob ''b1, b3'' sample_db)) = Some r
          \<and> assigned_to r = Some ''bob'' \<and> assigned_at r = Some 200
          \<and> status r = Some ''Assigned'')
   \<and> ''b2'' \<notin> set (bug_id_list ''b1, b3'')
   \<and> fetchone ''b2'' (snd (assign_bugs_to_me bob ''b1, b3'' sample_db)) = fetchone ''b2'' sample_db
   \<and> map bug_id (assign_bugs_interactive_rows sample_db) = [''b2'']
   \<and> set (assign_bugs_interactive_rows sample_db)
       = {r \<in> set sample_db. (status r = Some ''New'' \<or> status r = Some ''Triaged'')
                               \<and> (assigned_to r = None \<or> assigned_to r = Some [])}"
proof -
  have pre: "''b1'' \<in> set (bug_id_list ''b1, b3'') \<and> ''b1'' \<in> bug_ids_of sample_db"
    by code_simp
  have st: "status_of ''b1'' sample_db = Some (Some ''Resolved'')"
    by code_simp
  have who: "acting_user bob ''unknown'' = ''bob''" "now bob = 200"
    by code_simp+
  have other: "''b2'' \<notin> set (bug_id_list ''b1, b3'')"
    by code_simp
  have shown: "map bug_id (assign_bugs_interactive_rows sample_db) = [''b2'']"
    by code_simp
  from assignment_is_unconditional
         [where bid = "''b1''" and bug_ids = "''b1, b3''" and d = sample_db and e = bob]
       assignment_is_unconditional
         [where bid = "''b2''" and bug_ids = "''b1, b3''" and d = sample_db and e = bob]
       pre st who other shown
  show ?thesis by simp
qed

section \<open>Assigning twice\<close>




section \<open>Status changes\<close>




section \<open>Progress notes\<close>

text \<open>
  C4 says that every operation that writes \<^verbatim>\<open>progress_notes\<close> appends to it. The
  send-back and \<^verbatim>\<open>ai_fix_bug\<close> do (\<open>send_back_appends\<close>, \<open>ai_fix_appends\<close>); the
  progress save does not. On the sample table, bob sends bug \<^verbatim>\<open>b3\<close> back with a
  reason; alice then saves her progress form, which submits the empty notes field, and
  the notes of the bug are empty.
\<close>

theorem save_bug_progress_drops_notes:
  "current_notes ''b3'' sent_back_db
     = nl @ nl @ ''[2025-01-01 10:00:00] Sent back by bob:'' @ nl @ ''still crashes''
   \<and> map_option progress_notes
        (fetchone ''b3''
           (snd (save_bug_progress alice
                   [[(''bug_id'', Some ''b3''), (''status'', Some ''In Progress''), (''notes'', Some [])]]
                   sent_back_db)))
     = Some (Some [])"
  by code_simp

section \<open>Empty fields\<close>

text \<open>
  C9, as the specification states it: \<^verbatim>\<open>submit_bug_report\<close> with an empty title or
  description, and \<^verbatim>\<open>_send_bug_back_to_dev\<close> with an empty reason, report a validation
  error and write nothing. On the sample table, the submission with both fields empty
  inserts the row and announces it, and the send-back with an empty reason sets bug
  \<^verbatim>\<open>b3\<close> to Assigned and appends its heading to the notes.
\<close>

theorem validation_counterexample:
  "submit_bug_report alice ''b9'' ''u-9'' ''Linux'' ''/shots'' True [] [] None None None None sample_db
     = Inr ([Client_data (check_mark @ '' Bug Report Submitted'')
               [(''Bug ID'', ''b9''), (''Title'', []), (''Session'', ''s-1''), (''System'', ''Linux'')]],
            sample_db @ [inserted_row alice ''b9'' ''u-9'' ''Linux'' [] [] None None None None])
   \<and> status_of ''b3'' sample_db = Some (Some ''Good-to-Test'')
   \<and> status_of ''b3'' (snd (send_bug_back_to_dev bob ''b3'' ''alice'' [] sample_db))
        = Some (Some ''Assigned'')
   \<and> current_notes ''b3'' (snd (send_bug_back_to_dev bob ''b3'' ''alice'' [] sample_db))
        = nl @ nl @ ''[2025-01-01 10:00:00] Sent back by bob:'' @ nl"
  by code_simp

text \<open>
  C9, amended: the two handlers check none of their text arguments. Whatever the title
  and the description, empty or not, \<^verbatim>\<open>submit_bug_report\<close> with an id that is new to
  the table inserts a row with that title and description and status New. Whatever the
  reason, empty or not, \<^verbatim>\<open>_send_bug_back_to_dev\<close> on a bug of the table sets it to
  Assigned and appends its block to the notes. (The emptiness checks are in the
  scripts of the forms, in the browser.)
\<close>

theorem handlers_do_not_validate:
  "(bug_uuid \<notin> bug_ids_of d
      \<longrightarrow> (\<exists>msgs row.
             submit_bug_report e bug_uuid user_uuid sysinfo shots_dir write_ok
               title0 description0 repro logs shot_data shot_name d = Inr (msgs, d @ [row])
             \<and> bug_id row = bug_uuid \<and> title row = title0 \<and> description row = description0
             \<and> status row = Some ''New''))
   \<and> (bid \<in> bug_ids_of d
      \<longrightarrow> status_of bid (snd (send_bug_back_to_dev e bid dev reason d)) = Some (Some ''Assigned'')
          \<and> current_notes bid (snd (send_bug_back_to_dev e bid dev reason d))
              = current_notes bid d @ nl @ nl @ ''['' @ clock_text e @ ''] Sent back by ''
                  @ acting_user e ''unknown'' @ '':'' @ nl @ reason)"
proof -
  have submit: "\<exists>msgs row.
             submit_bug_report e bug_uuid user_uuid sysinfo shots_dir write_ok
               title0 description0 repro logs shot_data shot_name d = Inr (msgs, d @ [row])
             \<and> bug_id row = bug_uuid \<and> title row = title0 \<and> description row = description0
             \<and> status row = Some ''New''"
    if "bug_uuid \<notin> bug_ids_of d"
    using that by (simp add: submit_bug_report_def Let_def inserted_row_def)
  have sent: "status_of bid (snd (send_bug_back_to_dev e bid dev reason d)) = Some (Some ''Assigned'')"
    if "bid \<in> bug_ids_of d"
    using that by (simp add: send_bug_back_to_dev_def Let_def status_of_sql_update_same)
  from submit sent send_back_appends show ?thesis
    by blast
qed

theorem handlers_do_not_validate_witness:
  "''b9'' \<notin> bug_ids_of sample_db \<and> ''b3'' \<in> bug_ids_of sample_db
   \<and> (\<exists>msgs row.
         submit_bug_report alice ''b9'' ''u-9'' ''Linux'' ''/shots'' True [] [] None None None None
           sample_db = Inr (msgs, sample_db @ [row])
         \<and> bug_id row = ''b9'' \<and> title row = [] \<and> description row = []
         \<and> status row = Some ''New'')
   \<and> status_of ''b3'' (snd (send_bug_back_to_dev bob ''b3'' ''alice'' [] sample_db))
        = Some (Some ''Assigned'')"
proof -
  have fresh: "''b9'' \<notin> bug_ids_of sample_db" and present: "''b3'' \<in> bug_ids_of sample_db"
    by code_simp+
  from handlers_do_not_validate
         [where bug_uuid = "''b9''" and bid = "''b3''" and d = sample_db and e = alice
            and ?title0.0 = "[]" and ?description0.0 = "[]"]
       handlers_do_not_validate
         [where bug_uuid = "''b9''" and bid = "''b3''" and d = sample_db and e = bob
            and dev = "''alice''" and reason = "[]"]
       fresh present
  show ?thesis by blast
qed

section \<open>Bulk update with an id that is not in the table\<close>




section \<open>Order of the pending-work listings\<close>

text \<open>
  C7, as the specification states it: the picker, the to-do list and the tester queue
  return their rows in the same order, the tester queue with the same timestamp key
  as the others. On the sample table, bugs \<^verbatim>\<open>b3\<close> and \<^verbatim>\<open>b4\<close> have the same severity,
  \<^verbatim>\<open>b4\<close> being the later one: the to-do list shows \<^verbatim>\<open>b4\<close> first, the tester queue
  \<^verbatim>\<open>b3\<close>, and the tester queue is ordered by neither timestamp.
\<close>

theorem ordering_counterexample:
  "map bug_id (my_assigned_bugs_rows alice sample_db) = [''b4'', ''b3'']
   \<and> map bug_id (bugs_ready_for_testing_rows sample_db) = [''b3'', ''b4'']
   \<and> \<not> sorted_wrt (spec_triage_order assigned_at) (bugs_ready_for_testing_rows sample_db)
   \<and> \<not> sorted_wrt (spec_triage_order reported_at) (bugs_ready_for_testing_rows sample_db)"
  by code_simp

text \<open>
  C7, amended: all three listings are ordered by the severity rank of the
  specification, ascending (Critical 1, High 2, Medium 3, Low 4, anything else 5).
  Within one rank the picker orders by \<^verbatim>\<open>reported_at\<close>, descending, and the to-do list
  by \<^verbatim>\<open>assigned_at\<close>, descending, so that these two are in the order the specification
  prescribes; the tester queue has no second key, and within one rank its rows, the
  bugs with status Good-to-Test, come in the order of the table.
\<close>

theorem listings_order:
  "sorted_wrt (spec_triage_order reported_at) (assign_bugs_interactive_rows d)
   \<and> sorted_wrt (spec_triage_order assigned_at) (my_assigned_bugs_rows e d)
   \<and> sorted (map (\<lambda>r. spec_severity_rank (severity r)) (bugs_ready_for_testing_rows d))
   \<and> filter (\<lambda>r. spec_severity_rank (severity r) = k) (bugs_ready_for_testing_rows d)
       = filter (\<lambda>r. spec_severity_rank (severity r) = k)
           (filter (\<lambda>r. status r = Some ''Good-to-Test'') d)"
proof -
  have "sorted_wrt (by_severity_then reported_at) (assign_bugs_interactive_rows d)"
    unfolding assign_bugs_interactive_rows_def
    by (rule sorted_wrt_order_by) (rule by_severity_then_total, rule by_severity_then_trans)
  then have picker: "sorted_wrt (spec_triage_order reported_at) (assign_bugs_interactive_rows d)"
    by (simp add: by_severity_then_spec)
  have "sorted_wrt (by_severity_then assigned_at) (my_assigned_bugs_rows e d)"
    unfolding my_assigned_bugs_rows_def
    by (rule sorted_wrt_order_by) (rule by_severity_then_total, rule by_severity_then_trans)
  then have todo: "sorted_wrt (spec_triage_order assigned_at) (my_assigned_bugs_rows e d)"
    by (simp add: by_severity_then_spec)
  have "sorted_wrt by_severity (bugs_ready_for_testing_rows d)"
    unfolding bugs_ready_for_testing_rows_def
    by (rule sorted_wrt_order_by) (auto simp: by_severity_def)
  then have queue: "sorted (map (\<lambda>r. spec_severity_rank (severity r)) (bugs_ready_for_testing_rows d))"
    by (simp add: by_severity_spec sorted_map)
  have good: "sql_eq (status r) (Some ''Good-to-Test'') = (status r = Some ''Good-to-Test'')" for r
    by (cases "status r") (simp_all add: sql_eq_def)
  have "filter (\<lambda>r. severity_rank (severity r) = k) (bugs_ready_for_testing_rows d)
       = filter (\<lambda>r. severity_rank (severity r) = k)
           (filter (\<lambda>r. sql_eq (status r) (Some ''Good-to-Test'')) d)"
    unfolding bugs_ready_for_testing_rows_def by (rule filter_rank_order_by)
  then have stable: "filter (\<lambda>r. spec_severity_rank (severity r) = k) (bugs_ready_for_testing_rows d)
       = filter (\<lambda>r. spec_severity_rank (severity r) = k)
           (filter (\<lambda>r. status r = Some ''Good-to-Test'') d)"
    by (simp add: severity_rank_spec good)
  from picker todo queue stable show ?thesis by blast
qed

theorem listings_order_witness:
  "map (\<lambda>r. (bug_id r, severity r, reported_at r)) (assign_bugs_interactive_rows triage_db)
     = [(''t6'', Some ''Critical'', Some 60), (''t2'', Some ''Critical'', Some 20),
        (''t5'', Some ''High'', Some 50), (''t3'', Some ''Medium'', Some 30),
        (''t1'', Some ''Low'', Some 10), (''t4'', None, Some 40)]
   \<and> sorted_wrt (spec_triage_order reported_at) (assign_bugs_interactive_rows triage_db)
   \<and> map (\<lambda>r. (bug_id r, severity r, assigned_at r)) (my_assigned_bugs_rows alice testing_db)
     = [(''t6'', Some ''Critical'', Some 160), (''t2'', Some ''Critical'', Some 120),
        (''t5'', Some ''High'', Some 150), (''t3'', Some ''Medium'', Some 130),
        (''t1'', Some ''Low'', Some 110), (''t4'', None, Some 140)]
   \<and> sorted_wrt (spec_triage_order assigned_at) (my_assigned_bugs_rows alice testing_db)
   \<and> map (\<lambda>r. (bug_id r, severity r)) (bugs_ready_for_testing_rows testing_db)
     = [(''t2'', Some ''Critical''), (''t6'', Some ''Critical''), (''t5'', Some ''High''),
        (''t3'', Some ''Medium''), (''t1'', Some ''Low''), (''t4'', None)]
   \<and> map (\<lambda>r. spec_severity_rank (severity r)) (bugs_ready_for_testing_rows testing_db)
     = [1, 1, 2, 3, 4, 5]
   \<and> sorted (map (\<lambda>r. spec_severity_rank (severity r)) (bugs_ready_for_testing_rows testing_db))"
proof -
  have picker: "map (\<lambda>r. (bug_id r, severity r, reported_at r)) (assign_bugs_interactive_rows triage_db)
     = [(''t6'', Some ''Critical'', Some 60), (''t2'', Some ''Critical'', Some 20),
        (''t5'', Some ''High'', Some 50), (''t3'', Some ''Medium'', Some 30),
        (''t1'', Some ''Low'', Some 10), (''t4'', None, Some 40)]"
    by code_simp
  have todo: "map (\<lambda>r. (bug_id r, severity r, assigned_at r)) (my_assigned_bugs_rows alice testing_db)
     = [(''t6'', Some ''Critical'', Some 160), (''t2'', Some ''Critical'', Some 120),
        (''t5'', Some ''High'', Some 150), (''t3'', Some ''Medium'', Some 130),
        (''t1'', Some ''Low'', Some 110), (''t4'', None, Some 140)]"
    by code_simp
  have queue: "map (\<lambda>r. (bug_id r, severity r)) (bugs_ready_for_testing_rows testing_db)
     = [(''t2'', Some ''Critical''), (''t6'', Some ''Critical''), (''t5'', Some ''High''),
        (''t3'', Some ''Medium''), (''t1'', Some ''Low''), (''t4'', None)]"
    by code_simp
  have ranks: "map (\<lambda>r. spec_severity_rank (severity r)) (bugs_ready_for_testing_rows testing_db)
     = [1, 1, 2, 3, 4, 5]"
    by code_simp
  from listings_order [where e = alice and d = triage_db]
       listings_order [where e = alice and d = testing_db]
       picker todo queue ranks
  show ?thesis by blast
qed

end
